theory Spec2Isabelle
  imports Complex_Main "HOL-Library.Word"
begin

section \<open>JavaScript values as the intake function sees them\<close>

text \<open>
  The request body is parsed JSON. A payload (the interface \<open>SubmissionData\<close>) is a
  JSON object: the list of its key/value entries, one entry per key as \<open>JSON.parse\<close>
  leaves them. A number is an integer from \<open>-2^53\<close> up to \<open>2^53 - 1\<close>, held in a 54-bit
  word and read as signed: these are numbers a double holds exactly and \<open>String\<close>
  writes in plain decimal digits. Larger numbers, which \<open>String\<close> rounds or writes with
  an exponent, and fractions have no value in this type. Strings are lists of bytes, in
  UTF-8; every pattern the code looks for is ASCII.
\<close>

datatype json =
    JNull
  | JBool bool
  | JNum "54 word"
  | JStr string
  | JArr "json list"
  | JObj "(string \<times> json) list"

type_synonym payload = "(string \<times> json) list"

text \<open>\<open>data.key\<close>: \<open>None\<close> is \<open>undefined\<close>.\<close>

definition get_prop :: "payload \<Rightarrow> string \<Rightarrow> json option" where
  "get_prop data k = map_of data k"

text \<open>Truthiness of a property read, as \<open>if (x)\<close> and \<open>x && y\<close> test it.\<close>

fun js_truthy :: "json option \<Rightarrow> bool" where
  "js_truthy None = False"
| "js_truthy (Some JNull) = False"
| "js_truthy (Some (JBool b)) = b"
| "js_truthy (Some (JNum n)) = (n \<noteq> 0)"
| "js_truthy (Some (JStr s)) = (s \<noteq> [])"
| "js_truthy (Some (JArr xs)) = True"
| "js_truthy (Some (JObj kvs)) = True"

subsection \<open>String conversion and \<open>parseInt\<close>\<close>

text \<open>The character of a decimal digit; both uses below pass a number under 10.\<close>

definition digit_char :: "nat \<Rightarrow> char" where
  "digit_char d = ''0123456789'' ! d"

fun nat_digits :: "nat \<Rightarrow> string" where
  "nat_digits n = (if n < 10 then [digit_char n] else nat_digits (n div 10) @ [digit_char (n mod 10)])"

declare nat_digits.simps [simp del]

definition int_to_string :: "int \<Rightarrow> string" where
  "int_to_string n = (if n < 0 then CHR ''-'' # nat_digits (nat (- n)) else nat_digits (nat n))"

fun join_comma :: "string list \<Rightarrow> string" where
  "join_comma [] = []"
| "join_comma [s] = s"
| "join_comma (s # t # ts) = s @ '','' @ join_comma (t # ts)"

text \<open>
  \<open>String(v)\<close>, which \<open>parseInt\<close> applies to its argument. An array joins its elements
  with commas, \<open>null\<close> elements rendering as the empty string.
\<close>

fun js_to_string :: "json \<Rightarrow> string" where
  "js_to_string JNull = ''null''"
| "js_to_string (JBool b) = (if b then ''true'' else ''false'')"
| "js_to_string (JNum n) = int_to_string (sint n)"
| "js_to_string (JStr s) = s"
| "js_to_string (JArr xs) = join_comma (map (\<lambda>x. if x = JNull then [] else js_to_string x) xs)"
| "js_to_string (JObj kvs) = ''[object Object]''"

text \<open>
  White space as \<open>parseInt\<close> trims it (the \<open>WhiteSpace\<close> and \<open>LineTerminator\<close> code
  points): the ASCII ones, and in UTF-8 the no-break space, the Ogham space mark,
  \<open>U+2000\<close> to \<open>U+200A\<close>, the line and paragraph separators, the narrow no-break space,
  the medium mathematical space, the ideographic space and the byte order mark.
\<close>

definition is_ws :: "char \<Rightarrow> bool" where
  "is_ws c = (c \<in> set [CHR 0x09, CHR 0x0A, CHR 0x0B, CHR 0x0C, CHR 0x0D, CHR '' ''])"

definition ws_length :: "string \<Rightarrow> nat" where
  "ws_length s =
     (if s \<noteq> [] \<and> is_ws (hd s) then 1
      else if take 2 s = [CHR 0xC2, CHR 0xA0] then 2
      else if take 3 s \<in> set
                [[CHR 0xE1, CHR 0x9A, CHR 0x80],
                 [CHR 0xE2, CHR 0x80, CHR 0x80], [CHR 0xE2, CHR 0x80, CHR 0x81],
                 [CHR 0xE2, CHR 0x80, CHR 0x82], [CHR 0xE2, CHR 0x80, CHR 0x83],
                 [CHR 0xE2, CHR 0x80, CHR 0x84], [CHR 0xE2, CHR 0x80, CHR 0x85],
                 [CHR 0xE2, CHR 0x80, CHR 0x86], [CHR 0xE2, CHR 0x80, CHR 0x87],
                 [CHR 0xE2, CHR 0x80, CHR 0x88], [CHR 0xE2, CHR 0x80, CHR 0x89],
                 [CHR 0xE2, CHR 0x80, CHR 0x8A], [CHR 0xE2, CHR 0x80, CHR 0xA8],
                 [CHR 0xE2, CHR 0x80, CHR 0xA9], [CHR 0xE2, CHR 0x80, CHR 0xAF],
                 [CHR 0xE2, CHR 0x81, CHR 0x9F], [CHR 0xE3, CHR 0x80, CHR 0x80],
                 [CHR 0xEF, CHR 0xBB, CHR 0xBF]] then 3
      else 0)"

fun trim_start :: "string \<Rightarrow> string" where
  "trim_start [] = []"
| "trim_start (c # cs) =
     (case ws_length (c # cs) of 0 \<Rightarrow> c # cs | Suc k \<Rightarrow> trim_start (drop k cs))"

text \<open>The value of a digit in the given radix (10 or 16), \<open>None\<close> for any other character.\<close>

definition digit_value :: "nat \<Rightarrow> char \<Rightarrow> nat option" where
  "digit_value radix c =
     (let n = (of_char c :: nat) in
      if 48 \<le> n \<and> n \<le> 57 then Some (n - 48)
      else if radix = 16 \<and> 97 \<le> n \<and> n \<le> 102 then Some (n - 87)
      else if radix = 16 \<and> 65 \<le> n \<and> n \<le> 70 then Some (n - 55)
      else None)"

definition digits_value :: "nat \<Rightarrow> string \<Rightarrow> nat" where
  "digits_value radix z =
     foldl (\<lambda>acc c. case digit_value radix c of Some d \<Rightarrow> acc * radix + d | None \<Rightarrow> acc) 0 z"

text \<open>
  \<open>parseInt(s)\<close> without a radix: leading white space is dropped, then an optional sign,
  then an optional \<open>0x\<close>/\<open>0X\<close> prefix choosing radix 16, then the longest run of digits.
  No digit gives \<open>NaN\<close>, here \<open>None\<close>. The result is kept as an exact integer: against
  any value \<open>Date.now()\<close> can return (below \<open>2^53\<close>) the double that JavaScript rounds it
  to compares the same way in the test \<open>timeDiff < 2\<close>.
\<close>

definition parseInt :: "string \<Rightarrow> int option" where
  "parseInt s =
     (let s1 = trim_start s;
          neg = (case s1 of c # _ \<Rightarrow> c = CHR ''-'' | [] \<Rightarrow> False);
          s2 = (case s1 of c # r \<Rightarrow> (if c = CHR ''-'' \<or> c = CHR ''+'' then r else s1) | [] \<Rightarrow> s1);
          hex = (take 2 s2 = ''0x'' \<or> take 2 s2 = ''0X'');
          radix = (if hex then 16 else 10);
          s3 = (if hex then drop 2 s2 else s2);
          z = takeWhile (\<lambda>c. digit_value radix c \<noteq> None) s3
      in if z = [] then None
         else Some ((if neg then - 1 else 1) * int (digits_value radix z)))"

subsection \<open>Counting the matches of \<open>/https?:\/\//g\<close>\<close>

text \<open>
  \<open>v.match(re)\<close> with the global flag scans from the left; after a match the scan
  resumes behind it, otherwise one character further on.
\<close>

definition url_match_length :: "string \<Rightarrow> nat option" where
  "url_match_length s =
     (if take 7 s = ''http://'' then Some 7
      else if take 8 s = ''https://'' then Some 8
      else None)"

function count_url_matches :: "string \<Rightarrow> nat" where
  "count_url_matches [] = 0"
| "count_url_matches (c # cs) =
     (case url_match_length (c # cs) of
        Some k \<Rightarrow> Suc (count_url_matches (drop k (c # cs)))
      | None \<Rightarrow> count_url_matches cs)"
  by pat_completeness auto
termination
  by (relation "measure length") (auto simp: url_match_length_def split: if_splits)

text \<open>
  The specification's wording, for comparison with the scan above: the number of
  places in a string at which \<open>http://\<close> or \<open>https://\<close> occurs.
\<close>

definition url_occurrences :: "string \<Rightarrow> nat" where
  "url_occurrences s =
     length (filter (\<lambda>i. take 7 (drop i s) = ''http://'' \<or> take 8 (drop i s) = ''https://'')
               [0..<length s])"

section \<open>The spam evaluator \<open>detectSpam\<close>\<close>

record spam_signal =
  signal :: string
  score :: int

record spam_check =
  isSpam :: bool
  reason :: string
  signals :: "spam_signal list"

text \<open>\<open>submissionCache\<close>: per origin address, the recorded submission times in ms.\<close>

type_synonym submission_cache = "string \<rightharpoonup> int list"

text \<open>Line 29: \<open>data.__honeypot && data.__honeypot !== ''\<close>.\<close>

definition honeypot_filled :: "payload \<Rightarrow> bool" where
  "honeypot_filled data =
     (js_truthy (get_prop data ''__honeypot'') \<and> get_prop data ''__honeypot'' \<noteq> Some (JStr ''''))"

text \<open>
  The timing test of lines 35 to 44: the field must be truthy; \<open>timeDiff\<close> is
  \<open>(now - parseInt(field)) / 1000\<close>, and a comparison with \<open>NaN\<close> is false.
\<close>

definition submitted_too_fast :: "payload \<Rightarrow> int \<Rightarrow> bool" where
  "submitted_too_fast data now =
     (case get_prop data ''__timestamp'' of
        None \<Rightarrow> False
      | Some v \<Rightarrow>
          js_truthy (Some v) \<and>
          (case parseInt (js_to_string v) of
             None \<Rightarrow> False
           | Some submissionTime \<Rightarrow> real_of_int (now - submissionTime) / 1000 < 2))"

text \<open>\<open>Object.values(data).filter(v => typeof v === 'string')\<close>.\<close>

definition string_values :: "payload \<Rightarrow> string list" where
  "string_values data = concat (map (\<lambda>(k, v). case v of JStr s \<Rightarrow> [s] | _ \<Rightarrow> []) data)"

definition hasMultipleUrls :: "payload \<Rightarrow> bool" where
  "hasMultipleUrls data = list_ex (\<lambda>v. 2 < count_url_matches v) (string_values data)"

text \<open>Lines 70 to 77: the total of the recorded scores against the threshold 70.\<close>

definition score_signals :: "spam_signal list \<Rightarrow> spam_check" where
  "score_signals sigs =
     (let totalScore = foldl (\<lambda>sum s. sum + score s) 0 sigs;
          spam = (70 \<le> totalScore)
      in \<lparr>isSpam = spam,
          reason = (if spam then ''Spam score threshold exceeded'' else ''''),
          signals = sigs\<rparr>)"

text \<open>Lines 62 to 77; \<open>sigs\<close> is the signal list so far, empty whenever this is reached.\<close>

definition check_content :: "payload \<Rightarrow> spam_signal list \<Rightarrow> spam_check" where
  "check_content data sigs =
     score_signals (if hasMultipleUrls data
                    then sigs @ [\<lparr>signal = ''multiple_urls'', score = 60\<rparr>]
                    else sigs)"

text \<open>
  Lines 46 to 77. \<open>now\<close> is the clock reading of line 47. The cache is returned
  unchanged when the rate limit fires.
\<close>

definition check_rate :: "payload \<Rightarrow> string \<Rightarrow> int \<Rightarrow> submission_cache \<Rightarrow> spam_check \<times> submission_cache" where
  "check_rate data ip now cache =
     (let fiveMinutesAgo = now - 5 * 60 * 1000 in
      case cache ip of
        Some recorded \<Rightarrow>
          (let timestamps = filter (\<lambda>ts. fiveMinutesAgo < ts) recorded in
           if 3 \<le> length timestamps
           then (\<lparr>isSpam = True, reason = ''Too many submissions from this IP'',
                  signals = [\<lparr>signal = ''rate_limit_exceeded'', score = 90\<rparr>]\<rparr>, cache)
           else (check_content data [], cache(ip \<mapsto> timestamps @ [now])))
      | None \<Rightarrow> (check_content data [], cache(ip \<mapsto> [now])))"

text \<open>
  \<open>detectSpam(data, ip)\<close> with its two effects made explicit: \<open>now_timing\<close> and
  \<open>now_rate\<close> are what \<open>Date.now()\<close> returns at lines 37 and 47, and the cache is passed
  in and returned.
\<close>

definition detectSpam :: "payload \<Rightarrow> string \<Rightarrow> int \<Rightarrow> int \<Rightarrow> submission_cache \<Rightarrow> spam_check \<times> submission_cache" where
  "detectSpam data ip now_timing now_rate cache =
     (if honeypot_filled data
      then (\<lparr>isSpam = True, reason = ''Honeypot field was filled'',
             signals = [\<lparr>signal = ''honeypot_filled'', score = 100\<rparr>]\<rparr>, cache)
      else if submitted_too_fast data now_timing
      then (\<lparr>isSpam = True, reason = ''Form submitted too quickly'',
             signals = [\<lparr>signal = ''too_fast'', score = 80\<rparr>]\<rparr>, cache)
      else check_rate data ip now_rate cache)"

section \<open>The intake handler and the notification dispatcher\<close>

text \<open>
  The database client, the mail client and the clock are collaborators outside the
  repository. The handler reads the form lookup and the submission insert as the
  \<open>{data, error}\<close> value the client resolves to, a failed request being reported in
  \<open>error\<close>. The answer of the three other inserts (\<open>spam_signals\<close>, and \<open>email_logs\<close> in
  the \<open>try\<close> and in the \<open>catch\<close> block of \<open>sendNotificationEmail\<close>) is not read: such a
  call stores its rows, or returns an error that is dropped, or throws, and then
  the enclosing \<open>catch\<close> runs. The mail client has the same three outcomes. What the
  collaborators answer during one request is collected in an environment; the tables,
  the rate-limit cache and the console are state, passed in and returned, and so are
  two records of what was asked of the collaborators: the mails handed to the mail
  client and the rows handed to \<open>email_logs\<close>, whatever became of them.
\<close>

datatype 'a db_result = DbOk 'a | DbError string

datatype send_outcome =
    SendOk json          \<comment> \<open>\<open>{data, error: null}\<close>\<close>
  | SendError string     \<comment> \<open>\<open>{error}\<close>, carrying \<open>error.message\<close>\<close>
  | SendThrows string    \<comment> \<open>an exception, carrying \<open>String(error)\<close>\<close>

datatype write_outcome =
    Written              \<comment> \<open>the row is stored\<close>
  | Refused string       \<comment> \<open>\<open>{error}\<close> is returned, no row is stored\<close>
  | WriteThrows string   \<comment> \<open>an exception, no row is stored\<close>

record form_row =
  form_id :: string
  form_name :: string
  is_active :: bool
  notification_email :: "string option"

record submission_row =
  sub_form_id :: string
  sub_payload :: payload
  sub_ip :: string
  sub_user_agent :: string
  sub_is_spam :: bool
  sub_spam_reason :: string

record signal_row =
  sig_submission_id :: string
  sig_signal :: string
  sig_score :: int

record email_log_row =
  log_submission_id :: string
  log_status :: string
  provider_response :: json

text \<open>
  What is handed to the mail client: the recipient list, the subject and the two things
  the fixed HTML template is filled with besides the form name, namely the rendered
  entries and the submission id.
\<close>

record email =
  email_to :: "string list"
  email_subject :: string
  email_entries :: "(string \<times> json) list"
  email_submission_id :: string

datatype console_line = ConsoleError string | ConsoleLog string

record env =
  clock_timing :: int
  clock_rate :: int
  forms_select_error :: "string option"
  submissions_insert :: "string db_result"
  spam_signals_insert :: write_outcome
  emails_send :: send_outcome
  email_logs_insert :: write_outcome
  email_logs_insert_in_catch :: write_outcome

record world =
  forms :: "form_row list"
  submissions :: "(string \<times> submission_row) list"
  spam_signals :: "signal_row list"
  email_logs :: "email_log_row list"
  email_log_attempts :: "email_log_row list"
  mail_attempts :: "email list"
  submissionCache :: submission_cache
  console :: "console_line list"

datatype response_body =
    NoBody
  | ErrorBody string
  | SuccessBody string string   \<comment> \<open>\<open>message\<close> and \<open>submission_id\<close>, beside \<open>success: true\<close>\<close>

record response =
  status :: nat
  body :: response_body

text \<open>
  The request. A header is \<open>None\<close> when \<open>headers.get\<close> returns \<open>null\<close>. \<open>req_body\<close> is
  \<open>None\<close> when \<open>req.json()\<close> rejects, and also for the body \<open>null\<close>, on which
  \<open>detectSpam\<close> throws at its first property read: both end in the handler's \<open>catch\<close>
  before anything is written. Any other body that is not an object is read through its
  own enumerable properties, so it stands here as the object with those entries (none
  for a number or a boolean, the indexed elements for an array or a string).
\<close>

record request =
  req_method :: string
  req_pathname :: string
  x_forwarded_for :: "string option"
  x_real_ip :: "string option"
  user_agent :: "string option"
  req_body :: "payload option"

text \<open>\<open>s.split(c)\<close> for a one-character separator; the result is never empty.\<close>

fun split_on :: "char \<Rightarrow> string \<Rightarrow> string list" where
  "split_on c [] = [[]]"
| "split_on c (x # xs) =
     (if x = c then [] # split_on c xs
      else (case split_on c xs of p # ps \<Rightarrow> (x # p) # ps | [] \<Rightarrow> [[x]]))"

text \<open>\<open>pathParts[pathParts.length - 1]\<close>; \<open>None\<close> is \<open>undefined\<close>.\<close>

definition path_form_id :: "string \<Rightarrow> string option" where
  "path_form_id pathname =
     (case rev (split_on CHR ''/'' pathname) of [] \<Rightarrow> None | p # _ \<Rightarrow> Some p)"

text \<open>\<open>h || d\<close> on a string that may be \<open>null\<close>.\<close>

definition or_default :: "string option \<Rightarrow> string \<Rightarrow> string" where
  "or_default h d = (case h of None \<Rightarrow> d | Some s \<Rightarrow> if s = [] then d else s)"

text \<open>
  \<open>from('forms').select('*').eq('id', formId).eq('is_active', true).single()\<close>: an error
  unless exactly one row matches.
\<close>

definition select_active_form :: "env \<Rightarrow> world \<Rightarrow> string \<Rightarrow> form_row db_result" where
  "select_active_form e w formId =
     (case forms_select_error e of
        Some msg \<Rightarrow> DbError msg
      | None \<Rightarrow>
          (case filter (\<lambda>f. form_id f = formId \<and> is_active f) (forms w) of
             [f] \<Rightarrow> DbOk f
           | _ \<Rightarrow> DbError ''JSON object requested, multiple (or no) rows returned''))"

definition delete_key :: "string \<Rightarrow> payload \<Rightarrow> payload" where
  "delete_key k obj = filter (\<lambda>(k', v). k' \<noteq> k) obj"

text \<open>Lines 158 to 161.\<close>

definition cleanPayload :: "payload \<Rightarrow> payload" where
  "cleanPayload submissionData = delete_key ''__timestamp'' (delete_key ''__honeypot'' submissionData)"

definition log_line :: "console_line \<Rightarrow> world \<Rightarrow> world" where
  "log_line l w = w\<lparr>console := console w @ [l]\<rparr>"

text \<open>
  One \<open>from('email_logs').insert(row)\<close>: the call is noted, and the row is in the table
  afterwards only if the insert was accepted.
\<close>

definition email_logs_insert_call :: "write_outcome \<Rightarrow> email_log_row \<Rightarrow> world \<Rightarrow> world" where
  "email_logs_insert_call outcome row w =
     (let w1 = w\<lparr>email_log_attempts := email_log_attempts w @ [row]\<rparr>
      in case outcome of
           Written \<Rightarrow> w1\<lparr>email_logs := email_logs w1 @ [row]\<rparr>
         | Refused _ \<Rightarrow> w1
         | WriteThrows _ \<Rightarrow> w1)"

text \<open>
  The \<open>catch\<close> block of \<open>sendNotificationEmail\<close> (lines 112 to 119). Its own insert is
  not guarded: when that throws, the returned promise rejects, which the first component
  of the result reports.
\<close>

definition notification_catch :: "env \<Rightarrow> string \<Rightarrow> string \<Rightarrow> world \<Rightarrow> string option \<times> world" where
  "notification_catch e submissionId err w =
     (let w1 = log_line (ConsoleError ''Error in email notification:'') w;
          w2 = email_logs_insert_call (email_logs_insert_in_catch e)
                 \<lparr>log_submission_id = submissionId, log_status = ''failed'',
                  provider_response = JObj [(''error'', JStr err)]\<rparr> w1
      in case email_logs_insert_in_catch e of
           WriteThrows err2 \<Rightarrow> (Some err2, w2)
         | _ \<Rightarrow> (None, w2))"

text \<open>
  \<open>sendNotificationEmail\<close> (lines 80 to 120). The result of the \<open>email_logs\<close> insert of
  line 101 is not read, so a returned error passes unnoticed; the status and the
  response written there follow the \<open>error\<close> field of the mail client's answer, and so
  does the console line behind it.
\<close>

definition sendNotificationEmail ::
  "env \<Rightarrow> string \<Rightarrow> string \<Rightarrow> payload \<Rightarrow> string \<Rightarrow> world \<Rightarrow> string option \<times> world" where
  "sendNotificationEmail e formName notificationEmail submissionData submissionId w =
     (let dataHtml = filter (\<lambda>(key, v). take 2 key \<noteq> ''__'') submissionData;
          mail = \<lparr>email_to = [notificationEmail],
                  email_subject = ''New submission for '' @ formName,
                  email_entries = dataHtml,
                  email_submission_id = submissionId\<rparr>;
          w1 = w\<lparr>mail_attempts := mail_attempts w @ [mail]\<rparr>
      in case emails_send e of
           SendThrows err \<Rightarrow> notification_catch e submissionId err w1
         | SendOk d \<Rightarrow>
             (let w2 = email_logs_insert_call (email_logs_insert e)
                         \<lparr>log_submission_id = submissionId, log_status = ''sent'',
                          provider_response = d\<rparr> w1
              in case email_logs_insert e of
                   WriteThrows err \<Rightarrow> notification_catch e submissionId err w2
                 | _ \<Rightarrow> (None, log_line (ConsoleLog ''Email sent successfully:'') w2))
         | SendError msg \<Rightarrow>
             (let w2 = email_logs_insert_call (email_logs_insert e)
                         \<lparr>log_submission_id = submissionId, log_status = ''failed'',
                          provider_response = JObj [(''error'', JStr msg)]\<rparr> w1
              in case email_logs_insert e of
                   WriteThrows err \<Rightarrow> notification_catch e submissionId err w2
                 | _ \<Rightarrow> (None, log_line (ConsoleError ''Error sending email:'') w2)))"

text \<open>
  The call of lines 201 to 206: it is not awaited, and a rejection only reaches the
  \<open>.catch\<close> handler, which logs it. The state returned is the one after the detached
  call has finished.
\<close>

definition dispatch_notification :: "env \<Rightarrow> string \<Rightarrow> string \<Rightarrow> payload \<Rightarrow> string \<Rightarrow> world \<Rightarrow> world" where
  "dispatch_notification e formName notificationEmail cleaned submissionId w =
     (case sendNotificationEmail e formName notificationEmail cleaned submissionId w of
        (None, w') \<Rightarrow> w'
      | (Some err, w') \<Rightarrow> log_line (ConsoleError ''Background email error:'') w')"

text \<open>
  The condition of line 200, \<open>!spamCheck.isSpam && form.notification_email\<close>: the
  address found when the dispatch is due, \<open>None\<close> otherwise. The column is nullable and
  the empty string is falsy.
\<close>

definition notification_due :: "spam_check \<Rightarrow> form_row \<Rightarrow> string option" where
  "notification_due spamCheck form =
     (if isSpam spamCheck then None
      else (case notification_email form of
              None \<Rightarrow> None
            | Some addr \<Rightarrow> if addr = [] then None else Some addr))"

definition json_response :: "nat \<Rightarrow> response_body \<Rightarrow> response" where
  "json_response st b = \<lparr>status = st, body = b\<rparr>"

text \<open>
  Lines 189 to 197: the signal rows are inserted when there are any. The call is awaited
  inside the handler's \<open>try\<close> block and its answer is not read; \<open>Inl\<close> is the exception
  it throws.
\<close>

definition insert_signals :: "env \<Rightarrow> string \<Rightarrow> spam_signal list \<Rightarrow> world \<Rightarrow> string + world" where
  "insert_signals e submissionId sigs w =
     (if sigs = [] then Inr w
      else (case spam_signals_insert e of
              Written \<Rightarrow>
                Inr (w\<lparr>spam_signals := spam_signals w @
                          map (\<lambda>s. \<lparr>sig_submission_id = submissionId,
                                     sig_signal = signal s,
                                     sig_score = score s\<rparr>) sigs\<rparr>)
            | Refused _ \<Rightarrow> Inr w
            | WriteThrows err \<Rightarrow> Inl err))"

text \<open>
  Lines 154 to 216, reached with the form row found, and the \<open>catch\<close> block of lines 218
  to 224 for what is thrown there: a body that does not parse, and the signal insert.
\<close>

definition accept_submission :: "request \<Rightarrow> env \<Rightarrow> string \<Rightarrow> form_row \<Rightarrow> world \<Rightarrow> response \<times> world" where
  "accept_submission req e formId form w =
     (case req_body req of
        None \<Rightarrow>
          (json_response 500 (ErrorBody ''Internal server error''),
           log_line (ConsoleError ''Error processing submission:'') w)
      | Some submissionData \<Rightarrow>
          (let ip = or_default (x_forwarded_for req) (or_default (x_real_ip req) ''unknown'');
               userAgent = or_default (user_agent req) [];
               cleaned = cleanPayload submissionData;
               (spamCheck, cache') =
                  detectSpam submissionData ip (clock_timing e) (clock_rate e) (submissionCache w);
               w1 = w\<lparr>submissionCache := cache'\<rparr>
           in case submissions_insert e of
                DbError err \<Rightarrow>
                  (json_response 500 (ErrorBody ''Failed to save submission''),
                   log_line (ConsoleError ''Error inserting submission:'') w1)
              | DbOk submissionId \<Rightarrow>
                  (let w2 = w1\<lparr>submissions := submissions w1 @
                              [(submissionId,
                                \<lparr>sub_form_id = formId, sub_payload = cleaned, sub_ip = ip,
                                 sub_user_agent = userAgent, sub_is_spam = isSpam spamCheck,
                                 sub_spam_reason = reason spamCheck\<rparr>)]\<rparr>
                   in case insert_signals e submissionId (signals spamCheck) w2 of
                        Inl err \<Rightarrow>
                          (json_response 500 (ErrorBody ''Internal server error''),
                           log_line (ConsoleError ''Error processing submission:'') w2)
                      | Inr w3 \<Rightarrow>
                          (let w4 = (case notification_due spamCheck form of
                                       Some addr \<Rightarrow>
                                         dispatch_notification e (form_name form) addr cleaned
                                           submissionId w3
                                     | None \<Rightarrow> w3)
                           in (json_response 200 (SuccessBody ''Submission received'' submissionId),
                               w4)))))"

text \<open>The handler passed to \<open>serve\<close> (lines 122 to 225).\<close>

definition handle_request :: "request \<Rightarrow> env \<Rightarrow> world \<Rightarrow> response \<times> world" where
  "handle_request req e w =
     (if req_method req = ''OPTIONS'' then (json_response 200 NoBody, w)
      else case path_form_id (req_pathname req) of
             None \<Rightarrow> (json_response 400 (ErrorBody ''Form ID is required''), w)
           | Some formId \<Rightarrow>
               if formId = [] then (json_response 400 (ErrorBody ''Form ID is required''), w)
               else (case select_active_form e w formId of
                       DbError _ \<Rightarrow> (json_response 404 (ErrorBody ''Form not found or inactive''), w)
                     | DbOk form \<Rightarrow> accept_submission req e formId form w))"

section \<open>Example requests\<close>

text \<open>
  Concrete inputs on which the theorems below are instantiated: an active form with a
  notification address, an inactive one, empty tables, and collaborators that all
  succeed.
\<close>

definition form_F1 :: form_row where
  "form_F1 = \<lparr>form_id = ''F1'', form_name = ''Contact'', is_active = True,
              notification_email = Some ''owner@example.com''\<rparr>"

definition form_F2 :: form_row where
  "form_F2 = \<lparr>form_id = ''F2'', form_name = ''Retired'', is_active = False,
              notification_email = Some ''owner@example.com''\<rparr>"

definition world0 :: world where
  "world0 = \<lparr>forms = [form_F1, form_F2], submissions = [], spam_signals = [], email_logs = [],
             email_log_attempts = [], mail_attempts = [], submissionCache = Map.empty, console = []\<rparr>"

definition env_ok :: env where
  "env_ok = \<lparr>clock_timing = 1700000005000, clock_rate = 1700000005001, forms_select_error = None,
             submissions_insert = DbOk ''S1'', spam_signals_insert = Written,
             emails_send = SendOk (JObj [(''id'', JStr ''E1'')]),
             email_logs_insert = Written, email_logs_insert_in_catch = Written\<rparr>"

definition post_to :: "string \<Rightarrow> payload \<Rightarrow> request" where
  "post_to formId data =
     \<lparr>req_method = ''POST'', req_pathname = ''/submit-form/'' @ formId,
      x_forwarded_for = Some ''1.2.3.4'', x_real_ip = None, user_agent = Some ''Mozilla'',
      req_body = Some data\<rparr>"

definition payload_bob :: payload where
  "payload_bob = [(''name'', JStr ''Bob''), (''__honeypot'', JStr []), (''__timestamp'', JStr ''1700000000000'')]"

definition payload_bot :: payload where
  "payload_bot = [(''name'', JStr ''Bot''), (''__honeypot'', JStr ''spam'')]"

definition payload_links :: payload where
  "payload_links = [(''msg'', JStr ''http://a https://b http://c''), (''__timestamp'', JStr ''1700000000000'')]"

section \<open>Properties of the spam evaluator\<close>

lemma honeypot_filled_truthy:
  "honeypot_filled data \<longleftrightarrow> js_truthy (get_prop data ''__honeypot'')"
  unfolding honeypot_filled_def by auto

lemma detectSpam_honeypot:
  assumes "js_truthy (get_prop data ''__honeypot'')"
  shows "detectSpam data ip now_timing now_rate cache =
           (\<lparr>isSpam = True, reason = ''Honeypot field was filled'',
             signals = [\<lparr>signal = ''honeypot_filled'', score = 100\<rparr>]\<rparr>, cache)"
  using assms by (simp add: detectSpam_def honeypot_filled_truthy)

text \<open>
  C1. A payload whose honeypot field is a non-empty string is classified at once:
  the result is spam with reason "Honeypot field was filled" and the single signal
  \<open>honeypot_filled\<close> of score 100, whatever the other fields, the origin, the clock
  and the history are; the history comes back as it was.
\<close>

theorem honeypot_decisive:
  assumes "get_prop data ''__honeypot'' = Some (JStr s)" and "s \<noteq> []"
  shows "detectSpam data ip now_timing now_rate cache =
           (\<lparr>isSpam = True, reason = ''Honeypot field was filled'',
             signals = [\<lparr>signal = ''honeypot_filled'', score = 100\<rparr>]\<rparr>, cache)"
  by (rule detectSpam_honeypot) (simp add: assms)

theorem honeypot_decisive_witness:
  "get_prop [(''msg'', JStr ''http://a http://b http://c''), (''__honeypot'', JStr ''x''),
             (''__timestamp'', JStr ''0'')] ''__honeypot'' = Some (JStr ''x'')
   \<and> ''x'' \<noteq> []
   \<and> detectSpam [(''msg'', JStr ''http://a http://b http://c''), (''__honeypot'', JStr ''x''),
                  (''__timestamp'', JStr ''0'')]
        ''1.2.3.4'' 1000 1000 [''1.2.3.4'' \<mapsto> [997, 998, 999]] =
       (\<lparr>isSpam = True, reason = ''Honeypot field was filled'',
         signals = [\<lparr>signal = ''honeypot_filled'', score = 100\<rparr>]\<rparr>,
        [''1.2.3.4'' \<mapsto> [997, 998, 999]])"
proof -
  have h: "get_prop [(''msg'', JStr ''http://a http://b http://c''), (''__honeypot'', JStr ''x''),
                     (''__timestamp'', JStr ''0'')] ''__honeypot'' = Some (JStr ''x'')"
    by (simp add: get_prop_def)
  have n: "''x'' \<noteq> []" by simp
  show ?thesis using h n honeypot_decisive [OF h n] by simp
qed




lemma score_signals_signals: "signals (score_signals sigs) = sigs"
  by (simp add: score_signals_def Let_def)

lemma check_content_nil_signals:
  "signals (check_content data []) =
     (if hasMultipleUrls data then [\<lparr>signal = ''multiple_urls'', score = 60\<rparr>] else [])"
  by (simp add: check_content_def score_signals_signals)

lemma check_content_nil:
  "check_content data [] =
     \<lparr>isSpam = False, reason = [],
      signals = (if hasMultipleUrls data then [\<lparr>signal = ''multiple_urls'', score = 60\<rparr>] else [])\<rparr>"
  by (simp add: check_content_def score_signals_def)

lemma check_rate_cases:
  "check_rate data ip now cache =
     (if 3 \<le> length (filter (\<lambda>ts. now - 300000 < ts) (case cache ip of None \<Rightarrow> [] | Some h \<Rightarrow> h))
      then (\<lparr>isSpam = True, reason = ''Too many submissions from this IP'',
             signals = [\<lparr>signal = ''rate_limit_exceeded'', score = 90\<rparr>]\<rparr>, cache)
      else (check_content data [],
            cache(ip \<mapsto> filter (\<lambda>ts. now - 300000 < ts) (case cache ip of None \<Rightarrow> [] | Some h \<Rightarrow> h) @ [now])))"
  by (simp add: check_rate_def Let_def split: option.splits)

lemma detectSpam_past_decisive:
  assumes "\<not> honeypot_filled data" and "\<not> submitted_too_fast data now_timing"
  shows "detectSpam data ip now_timing now_rate cache = check_rate data ip now_rate cache"
  using assms by (simp add: detectSpam_def)

lemmas eval_defs = get_prop_def honeypot_filled_def submitted_too_fast_def parseInt_def is_ws_def
  ws_length_def digit_value_def digits_value_def

text \<open>
  A number is written out in decimal digits, sign first; its value stays within the
  range in which \<open>String\<close> does so.
\<close>

lemma js_to_string_number:
  "js_to_string (JNum n) = int_to_string (sint n)"
  "- (2 ^ 53) \<le> sint n" "sint n < 2 ^ 53"
  using sint_ge [of n] sint_lt [of n] by simp_all

lemma submitted_too_fast_number:
  "submitted_too_fast [(''__timestamp'', JNum 1700000004000)] 1700000005000"
  "\<not> submitted_too_fast [(''__timestamp'', JNum 1700000000000)] 1700000005000"
  "js_to_string (JNum (- 42)) = ''-42''"
  by (simp_all add: eval_defs int_to_string_def nat_digits.simps digit_char_def)



text \<open>
  C3. Past the honeypot and timing checks, let \<open>recent\<close> be the times recorded for the
  origin that are younger than five minutes (\<open>now - 300000 < ts\<close>). With three or more
  of them the result is spam, reason "Too many submissions from this IP", single signal
  \<open>rate_limit_exceeded\<close> of score 90, and the cache is returned as it was. With at most
  two the rate check does not fire and the origin's history becomes \<open>recent\<close> followed
  by the current time, every other origin unchanged.
\<close>

theorem rate_limit_window:
  fixes data :: payload and ip :: string and now_timing now_rate :: int and cache :: submission_cache
  assumes "\<not> honeypot_filled data" and "\<not> submitted_too_fast data now_timing"
  defines "recent \<equiv> filter (\<lambda>ts. now_rate - 300000 < ts) (case cache ip of None \<Rightarrow> [] | Some h \<Rightarrow> h)"
  shows "(3 \<le> length recent \<longrightarrow>
            detectSpam data ip now_timing now_rate cache =
              (\<lparr>isSpam = True, reason = ''Too many submissions from this IP'',
                signals = [\<lparr>signal = ''rate_limit_exceeded'', score = 90\<rparr>]\<rparr>, cache))
       \<and> (length recent \<le> 2 \<longrightarrow>
            reason (fst (detectSpam data ip now_timing now_rate cache)) \<noteq> ''Too many submissions from this IP''
            \<and> \<lparr>signal = ''rate_limit_exceeded'', score = 90\<rparr>
                 \<notin> set (signals (fst (detectSpam data ip now_timing now_rate cache)))
            \<and> snd (detectSpam data ip now_timing now_rate cache) = cache(ip \<mapsto> recent @ [now_rate]))"
  unfolding recent_def detectSpam_past_decisive [OF assms(1,2)]
  by (simp add: check_rate_cases check_content_nil)

theorem rate_limit_window_witness:
  "\<not> honeypot_filled [(''name'', JStr ''Bob''), (''__timestamp'', JStr ''1000'')]
   \<and> \<not> submitted_too_fast [(''name'', JStr ''Bob''), (''__timestamp'', JStr ''1000'')] 400000
   \<and> 3 \<le> length (filter (\<lambda>ts. 400000 - 300000 < ts)
                   (case [''1.2.3.4'' \<mapsto> [100000, 100001, 200000, 300000 :: int]] ''1.2.3.4'' of
                      None \<Rightarrow> [] | Some h \<Rightarrow> h))
   \<and> detectSpam [(''name'', JStr ''Bob''), (''__timestamp'', JStr ''1000'')] ''1.2.3.4'' 400000 400000
        [''1.2.3.4'' \<mapsto> [100000, 100001, 200000, 300000]] =
        (\<lparr>isSpam = True, reason = ''Too many submissions from this IP'',
          signals = [\<lparr>signal = ''rate_limit_exceeded'', score = 90\<rparr>]\<rparr>,
         [''1.2.3.4'' \<mapsto> [100000, 100001, 200000, 300000]])
   \<and> length (filter (\<lambda>ts. 400000 - 300000 < ts)
               (case [''1.2.3.4'' \<mapsto> [100000, 200000, 300000 :: int]] ''1.2.3.4'' of
                  None \<Rightarrow> [] | Some h \<Rightarrow> h)) \<le> 2
   \<and> snd (detectSpam [(''name'', JStr ''Bob''), (''__timestamp'', JStr ''1000'')] ''1.2.3.4'' 400000 400000
        [''1.2.3.4'' \<mapsto> [100000, 200000, 300000]]) =
        [''1.2.3.4'' \<mapsto> [200000, 300000, 400000]]"
proof -
  let ?D = "[(''name'', JStr ''Bob''), (''__timestamp'', JStr ''1000'')]"
  have h: "\<not> honeypot_filled ?D" by (simp add: eval_defs)
  have t: "\<not> submitted_too_fast ?D 400000" by (simp add: eval_defs)
  show ?thesis
    using h t
      rate_limit_window [OF h t, of 400000 "[''1.2.3.4'' \<mapsto> [100000, 100001, 200000, 300000]]" "''1.2.3.4''"]
      rate_limit_window [OF h t, of 400000 "[''1.2.3.4'' \<mapsto> [100000, 200000, 300000]]" "''1.2.3.4''"]
    by simp
qed

subsection \<open>Four submissions from one origin\<close>

text \<open>
  Starting from an origin without history, three submissions that pass the honeypot
  and timing checks are let through by the rate check, and a fourth one is blocked as
  long as the first is still younger than five minutes.
\<close>

lemma fourth_within_window_blocked:
  fixes t1 t2 t3 t4 :: int
  assumes clean: "\<not> honeypot_filled d" "\<not> submitted_too_fast d n"
    and order: "t1 \<le> t2" "t2 \<le> t3" "t3 \<le> t4" and window: "t4 - 300000 < t1"
    and "cache ip = None"
  defines "c1 \<equiv> snd (detectSpam d ip n t1 cache)"
  defines "c2 \<equiv> snd (detectSpam d ip n t2 c1)"
  defines "c3 \<equiv> snd (detectSpam d ip n t3 c2)"
  shows "\<not> isSpam (fst (detectSpam d ip n t1 cache))"
    and "\<not> isSpam (fst (detectSpam d ip n t2 c1))"
    and "\<not> isSpam (fst (detectSpam d ip n t3 c2))"
    and "c3 ip = Some [t1, t2, t3]"
    and "detectSpam d ip n t4 c3 =
           (\<lparr>isSpam = True, reason = ''Too many submissions from this IP'',
             signals = [\<lparr>signal = ''rate_limit_exceeded'', score = 90\<rparr>]\<rparr>, c3)"
proof -
  note step = detectSpam_past_decisive [OF clean]
  have 1: "c1 ip = Some [t1]"
    using assms(7) by (simp add: c1_def step check_rate_cases)
  have 2: "c2 ip = Some [t1, t2]"
    using 1 order window by (simp add: c2_def step check_rate_cases)
  show 3: "c3 ip = Some [t1, t2, t3]"
    using 2 order window by (simp add: c3_def step check_rate_cases)
  show "\<not> isSpam (fst (detectSpam d ip n t1 cache))"
    using assms(7) by (simp add: step check_rate_cases check_content_nil)
  show "\<not> isSpam (fst (detectSpam d ip n t2 c1))"
    using 1 order window by (simp add: step check_rate_cases check_content_nil)
  show "\<not> isSpam (fst (detectSpam d ip n t3 c2))"
    using 2 order window by (simp add: step check_rate_cases check_content_nil)
  show "detectSpam d ip n t4 c3 =
           (\<lparr>isSpam = True, reason = ''Too many submissions from this IP'',
             signals = [\<lparr>signal = ''rate_limit_exceeded'', score = 90\<rparr>]\<rparr>, c3)"
    using 3 order window by (simp add: step check_rate_cases)
qed

subsection \<open>The scan counts the occurrences\<close>

lemma url_match_head:
  "url_match_length (c # cs) \<noteq> None \<Longrightarrow> c = CHR ''h''"
  by (auto simp add: url_match_length_def split: if_splits)

lemma url_occurrences_Cons:
  "url_occurrences (c # cs) =
     (if url_match_length (c # cs) = None then 0 else 1) + url_occurrences cs"
proof -
  have "[0..<length (c # cs)] = 0 # map Suc [0..<length cs]"
    by (simp add: upt_conv_Cons map_Suc_upt del: upt_Suc)
  then show ?thesis
    by (simp add: url_occurrences_def url_match_length_def filter_map comp_def del: upt_Suc)
qed

lemma url_occurrences_skip:
  "c \<noteq> CHR ''h'' \<Longrightarrow> url_occurrences (c # cs) = url_occurrences cs"
  by (simp add: url_occurrences_Cons url_match_length_def)

lemma url_occurrences_drop:
  assumes "url_match_length (c # cs) = Some k"
  shows "url_occurrences (c # cs) = Suc (url_occurrences (drop k (c # cs)))"
proof (cases "take 7 (c # cs) = ''http://''")
  case True
  then have k: "k = 7" using assms by (simp add: url_match_length_def)
  from True have "c # cs = ''http://'' @ drop 7 (c # cs)"
    by (metis append_take_drop_id)
  then obtain r where r: "c # cs = ''http://'' @ r" and d: "drop 7 (c # cs) = r"
    by blast
  have "url_occurrences (''http://'' @ r) = Suc (url_occurrences r)"
    by (simp add: url_occurrences_Cons url_match_length_def url_occurrences_skip)
  with r d k show ?thesis by simp
next
  case False
  with assms have t: "take 8 (c # cs) = ''https://''" and k: "k = 8"
    by (auto simp add: url_match_length_def split: if_splits)
  from t have "c # cs = ''https://'' @ drop 8 (c # cs)"
    by (metis append_take_drop_id)
  then obtain r where r: "c # cs = ''https://'' @ r" and d: "drop 8 (c # cs) = r"
    by blast
  have "url_occurrences (''https://'' @ r) = Suc (url_occurrences r)"
    by (simp add: url_occurrences_Cons url_match_length_def url_occurrences_skip)
  with r d k show ?thesis by simp
qed

lemma count_url_matches_occurrences:
  "count_url_matches s = url_occurrences s"
proof (induction s rule: count_url_matches.induct)
  case 1
  show ?case by (simp add: url_occurrences_def)
next
  case (2 c cs)
  show ?case
  proof (cases "url_match_length (c # cs)")
    case None
    with 2 show ?thesis by (simp add: url_occurrences_Cons)
  next
    case (Some k)
    with 2 show ?thesis by (simp add: url_occurrences_drop)
  qed
qed

lemma sum_scores_foldl: "foldl (\<lambda>sum s. sum + score s) a sigs = a + sum_list (map score sigs)"
  by (induction sigs arbitrary: a) auto

lemma score_signals_spam: "isSpam (score_signals sigs) \<longleftrightarrow> 70 \<le> sum_list (map score sigs)"
  by (simp add: score_signals_def Let_def sum_scores_foldl)

lemma score_signals_reason:
  "reason (score_signals sigs) = (if isSpam (score_signals sigs) then ''Spam score threshold exceeded'' else [])"
  by (simp add: score_signals_def Let_def)

lemma hasMultipleUrls_iff:
  "hasMultipleUrls data \<longleftrightarrow> (\<exists>k s. (k, JStr s) \<in> set data \<and> 2 < count_url_matches s)"
  unfolding hasMultipleUrls_def string_values_def list_ex_iff
  by (auto split: json.splits)

lemma hasMultipleUrls_occurrences:
  "hasMultipleUrls data \<longleftrightarrow> (\<exists>k s. (k, JStr s) \<in> set data \<and> 2 < url_occurrences s)"
  by (simp add: hasMultipleUrls_iff count_url_matches_occurrences)

text \<open>
  C4. Past the three decisive checks: a string field in which \<open>http://\<close> or
  \<open>https://\<close> occurs at more than two places (the count the scan of the pattern
  yields, by \<open>count_url_matches_occurrences\<close>) puts \<open>multiple_urls\<close> with score 60
  into the signal list; the result is the scoring of that list, spam exactly when the
  scores total 70 or more, with reason "Spam score threshold exceeded" then and the
  empty reason otherwise. The scoring step taken alone leaves \<open>multiple_urls\<close> by
  itself below the threshold and puts it above together with any further signals worth
  10 or more.
\<close>

theorem content_scoring:
  fixes data :: payload and ip :: string and now_timing now_rate :: int and cache :: submission_cache
  assumes "\<not> honeypot_filled data" and "\<not> submitted_too_fast data now_timing"
    and "length (filter (\<lambda>ts. now_rate - 300000 < ts) (case cache ip of None \<Rightarrow> [] | Some h \<Rightarrow> h)) < 3"
  defines "r \<equiv> fst (detectSpam data ip now_timing now_rate cache)"
  shows "((\<exists>k s. (k, JStr s) \<in> set data \<and> 2 < url_occurrences s) \<longrightarrow>
            \<lparr>signal = ''multiple_urls'', score = 60\<rparr> \<in> set (signals r))
       \<and> r = score_signals (signals r)
       \<and> (isSpam r \<longleftrightarrow> 70 \<le> sum_list (map score (signals r)))
       \<and> reason r = (if 70 \<le> sum_list (map score (signals r)) then ''Spam score threshold exceeded'' else [])
       \<and> \<not> isSpam (score_signals [\<lparr>signal = ''multiple_urls'', score = 60\<rparr>])
       \<and> (\<forall>others. 10 \<le> sum_list (map score others) \<longrightarrow>
             isSpam (score_signals (\<lparr>signal = ''multiple_urls'', score = 60\<rparr> # others))
             \<and> reason (score_signals (\<lparr>signal = ''multiple_urls'', score = 60\<rparr> # others))
                 = ''Spam score threshold exceeded'')"
proof -
  have r: "r = check_content data []"
    unfolding r_def detectSpam_past_decisive [OF assms(1,2)] using assms(3)
    by (simp add: check_rate_cases)
  have 1: "(\<exists>k s. (k, JStr s) \<in> set data \<and> 2 < url_occurrences s) \<longrightarrow>
            \<lparr>signal = ''multiple_urls'', score = 60\<rparr> \<in> set (signals r)"
    unfolding r by (simp add: check_content_nil_signals hasMultipleUrls_occurrences)
  have 2: "r = score_signals (signals r)"
    unfolding r by (simp add: check_content_def score_signals_signals)
  have 3: "isSpam r \<longleftrightarrow> 70 \<le> sum_list (map score (signals r))"
    by (subst 2) (simp add: score_signals_spam score_signals_signals)
  have 4: "reason r = (if 70 \<le> sum_list (map score (signals r)) then ''Spam score threshold exceeded'' else [])"
    by (subst 2) (simp add: score_signals_reason score_signals_spam score_signals_signals)
  have 5: "\<not> isSpam (score_signals [\<lparr>signal = ''multiple_urls'', score = 60\<rparr>])"
    by (simp add: score_signals_spam)
  have 6: "\<forall>others. 10 \<le> sum_list (map score others) \<longrightarrow>
             isSpam (score_signals (\<lparr>signal = ''multiple_urls'', score = 60\<rparr> # others))
             \<and> reason (score_signals (\<lparr>signal = ''multiple_urls'', score = 60\<rparr> # others))
                 = ''Spam score threshold exceeded''"
    by (simp add: score_signals_reason score_signals_spam)
  from 1 2 3 4 5 6 show ?thesis by blast
qed

theorem content_scoring_witness:
  "\<not> honeypot_filled [(''msg'', JStr ''http://a https://b http://c''), (''__timestamp'', JStr ''1000'')]
   \<and> \<not> submitted_too_fast [(''msg'', JStr ''http://a https://b http://c''), (''__timestamp'', JStr ''1000'')] 400000
   \<and> length (filter (\<lambda>ts. 400000 - 300000 < ts)
               (case [''1.2.3.4'' \<mapsto> [200000, 300000 :: int]] ''1.2.3.4'' of None \<Rightarrow> [] | Some h \<Rightarrow> h)) < 3
   \<and> (''msg'', JStr ''http://a https://b http://c'')
        \<in> set [(''msg'', JStr ''http://a https://b http://c''), (''__timestamp'', JStr ''1000'')]
   \<and> 2 < url_occurrences ''http://a https://b http://c''
   \<and> fst (detectSpam [(''msg'', JStr ''http://a https://b http://c''), (''__timestamp'', JStr ''1000'')]
             ''1.2.3.4'' 400000 400000 [''1.2.3.4'' \<mapsto> [200000, 300000]]) =
        \<lparr>isSpam = False, reason = [], signals = [\<lparr>signal = ''multiple_urls'', score = 60\<rparr>]\<rparr>
   \<and> 10 \<le> sum_list (map score [\<lparr>signal = ''other'', score = 10\<rparr>])
   \<and> score_signals [\<lparr>signal = ''multiple_urls'', score = 60\<rparr>, \<lparr>signal = ''other'', score = 10\<rparr>] =
        \<lparr>isSpam = True, reason = ''Spam score threshold exceeded'',
         signals = [\<lparr>signal = ''multiple_urls'', score = 60\<rparr>, \<lparr>signal = ''other'', score = 10\<rparr>]\<rparr>"
proof -
  let ?D = "[(''msg'', JStr ''http://a https://b http://c''), (''__timestamp'', JStr ''1000'')]"
  let ?C = "[''1.2.3.4'' \<mapsto> [200000, 300000 :: int]]"
  have h: "\<not> honeypot_filled ?D" by (simp add: eval_defs)
  have t: "\<not> submitted_too_fast ?D 400000" by (simp add: eval_defs)
  have l: "length (filter (\<lambda>ts. 400000 - 300000 < ts)
               (case ?C ''1.2.3.4'' of None \<Rightarrow> [] | Some h \<Rightarrow> h)) < 3" by simp
  have u: "2 < url_occurrences ''http://a https://b http://c''"
    by (simp add: count_url_matches_occurrences [symmetric] url_match_length_def)
  have m: "(''msg'', JStr ''http://a https://b http://c'') \<in> set ?D" by simp
  have ex: "\<exists>k s. (k, JStr s) \<in> set ?D \<and> 2 < url_occurrences s"
    using m u by blast
  have s: "signals (fst (detectSpam ?D ''1.2.3.4'' 400000 400000 ?C))
             = [\<lparr>signal = ''multiple_urls'', score = 60\<rparr>]"
    using ex by (simp add: detectSpam_past_decisive [OF h t] check_rate_cases
                   check_content_nil_signals hasMultipleUrls_occurrences)
  have o: "10 \<le> sum_list (map score [\<lparr>signal = ''other'', score = 10\<rparr>])" by simp
  note c = content_scoring [where data = ?D and now_timing = 400000 and now_rate = 400000
      and cache = ?C and ip = "''1.2.3.4''", OF h t l]
  have a: "fst (detectSpam ?D ''1.2.3.4'' 400000 400000 ?C)
             = \<lparr>isSpam = False, reason = [], signals = [\<lparr>signal = ''multiple_urls'', score = 60\<rparr>]\<rparr>"
    using c s by (simp add: score_signals_def)
  have b: "score_signals [\<lparr>signal = ''multiple_urls'', score = 60\<rparr>, \<lparr>signal = ''other'', score = 10\<rparr>] =
        \<lparr>isSpam = True, reason = ''Spam score threshold exceeded'',
         signals = [\<lparr>signal = ''multiple_urls'', score = 60\<rparr>, \<lparr>signal = ''other'', score = 10\<rparr>]\<rparr>"
    using c o by (simp add: score_signals_def)
  from h t l m u a o b show ?thesis by blast
qed

text \<open>
  C5. \<open>detectSpam\<close> never returns the reason "Spam score threshold exceeded". Past the
  three decisive checks the signal list is empty or holds \<open>multiple_urls\<close> alone, so the
  total stays below 70 and the result is not spam, with the empty reason.
\<close>

theorem threshold_unreachable:
  fixes data :: payload and ip :: string and now_timing now_rate :: int and cache :: submission_cache
  defines "r \<equiv> fst (detectSpam data ip now_timing now_rate cache)"
  shows "reason r \<noteq> ''Spam score threshold exceeded''
       \<and> (\<not> honeypot_filled data \<and> \<not> submitted_too_fast data now_timing
            \<and> length (filter (\<lambda>ts. now_rate - 300000 < ts) (case cache ip of None \<Rightarrow> [] | Some h \<Rightarrow> h)) < 3
          \<longrightarrow> \<not> isSpam r \<and> reason r = []
              \<and> (signals r = [] \<or> signals r = [\<lparr>signal = ''multiple_urls'', score = 60\<rparr>])
              \<and> sum_list (map score (signals r)) < 70)"
  unfolding r_def detectSpam_def
  by (simp add: check_rate_cases check_content_nil)

theorem threshold_unreachable_witness:
  "\<not> honeypot_filled [(''msg'', JStr ''http://a https://b http://c''), (''__timestamp'', JStr ''1000'')]
   \<and> \<not> submitted_too_fast [(''msg'', JStr ''http://a https://b http://c''), (''__timestamp'', JStr ''1000'')] 400000
   \<and> length (filter (\<lambda>ts. 400000 - 300000 < ts)
               (case [''1.2.3.4'' \<mapsto> [200000, 300000 :: int]] ''1.2.3.4'' of None \<Rightarrow> [] | Some h \<Rightarrow> h)) < 3
   \<and> \<not> isSpam (fst (detectSpam [(''msg'', JStr ''http://a https://b http://c''), (''__timestamp'', JStr ''1000'')]
                      ''1.2.3.4'' 400000 400000 [''1.2.3.4'' \<mapsto> [200000, 300000]]))
   \<and> reason (fst (detectSpam [(''msg'', JStr ''http://a https://b http://c''), (''__timestamp'', JStr ''1000'')]
                      ''1.2.3.4'' 400000 400000 [''1.2.3.4'' \<mapsto> [200000, 300000]])) = []"
proof -
  let ?D = "[(''msg'', JStr ''http://a https://b http://c''), (''__timestamp'', JStr ''1000'')]"
  let ?C = "[''1.2.3.4'' \<mapsto> [200000, 300000 :: int]]"
  have h: "\<not> honeypot_filled ?D" by (simp add: eval_defs)
  have t: "\<not> submitted_too_fast ?D 400000" by (simp add: eval_defs)
  have l: "length (filter (\<lambda>ts. 400000 - 300000 < ts)
               (case ?C ''1.2.3.4'' of None \<Rightarrow> [] | Some h \<Rightarrow> h)) < 3" by simp
  from h t l threshold_unreachable [where data = ?D and now_timing = 400000 and now_rate = 400000
      and cache = ?C and ip = "''1.2.3.4''"]
  show ?thesis by blast
qed

section \<open>Properties of the intake handler\<close>

lemmas handler_defs = handle_request_def accept_submission_def insert_signals_def path_form_id_def
  select_active_form_def or_default_def cleanPayload_def delete_key_def json_response_def
  notification_due_def dispatch_notification_def sendNotificationEmail_def
  notification_catch_def log_line_def email_logs_insert_call_def detectSpam_def check_rate_def
  check_content_def score_signals_def hasMultipleUrls_def string_values_def
  url_match_length_def Let_def

lemmas fixture_defs = form_F1_def form_F2_def world0_def env_ok_def post_to_def
  payload_bob_def payload_bot_def payload_links_def


text \<open>
  The signal insert throws exactly when there are signals and the collaborator throws;
  otherwise it touches the \<open>spam_signals\<close> table only.
\<close>

lemma insert_signals_throws:
  "(\<exists>err. insert_signals e sid sigs w = Inl err) \<longleftrightarrow>
     sigs \<noteq> [] \<and> (\<exists>err. spam_signals_insert e = WriteThrows err)"
  by (simp add: insert_signals_def split: write_outcome.splits)

lemma insert_signals_returns:
  assumes "sigs = [] \<or> (\<forall>err. spam_signals_insert e \<noteq> WriteThrows err)"
  shows "\<exists>w'. insert_signals e sid sigs w = Inr w'"
  using assms by (auto simp add: insert_signals_def split: write_outcome.splits)

lemma insert_signals_keeps:
  assumes "insert_signals e sid sigs w = Inr w'"
  shows "w' = w\<lparr>spam_signals := spam_signals w'\<rparr>"
  using assms by (auto simp add: insert_signals_def split: if_splits write_outcome.splits)


text \<open>Every answer the handler can give.\<close>

lemma handle_request_responses:
  "fst (handle_request req e w) \<in>
     {json_response 200 NoBody,
      json_response 400 (ErrorBody ''Form ID is required''),
      json_response 404 (ErrorBody ''Form not found or inactive''),
      json_response 500 (ErrorBody ''Internal server error''),
      json_response 500 (ErrorBody ''Failed to save submission'')}
   \<or> (\<exists>sid. submissions_insert e = DbOk sid
          \<and> fst (handle_request req e w) = json_response 200 (SuccessBody ''Submission received'' sid))"
  by (simp add: handle_request_def accept_submission_def Let_def case_prod_beta
        split: option.splits db_result.splits sum.splits)

subsection \<open>What the dispatcher touches\<close>










subsection \<open>What an accepted submission leaves behind\<close>











subsection \<open>The specification's end-to-end scenarios\<close>

lemma scenario_legitimate:
  "handle_request (post_to ''F1'' payload_bob) env_ok world0 =
     (\<lparr>status = 200, body = SuccessBody ''Submission received'' ''S1''\<rparr>,
      world0\<lparr>submissions :=
               [(''S1'', \<lparr>sub_form_id = ''F1'', sub_payload = [(''name'', JStr ''Bob'')],
                         sub_ip = ''1.2.3.4'', sub_user_agent = ''Mozilla'',
                         sub_is_spam = False, sub_spam_reason = []\<rparr>)],
             email_logs :=
               [\<lparr>log_submission_id = ''S1'', log_status = ''sent'',
                 provider_response = JObj [(''id'', JStr ''E1'')]\<rparr>],
             email_log_attempts :=
               [\<lparr>log_submission_id = ''S1'', log_status = ''sent'',
                 provider_response = JObj [(''id'', JStr ''E1'')]\<rparr>],
             mail_attempts :=
               [\<lparr>email_to = [''owner@example.com''], email_subject = ''New submission for Contact'',
                 email_entries = [(''name'', JStr ''Bob'')], email_submission_id = ''S1''\<rparr>],
             submissionCache := [''1.2.3.4'' \<mapsto> [1700000005001]],
             console := [ConsoleLog ''Email sent successfully:'']\<rparr>)"
  by (simp add: handler_defs fixture_defs eval_defs)

lemma scenario_honeypot:
  "handle_request (post_to ''F1'' payload_bot) env_ok world0 =
     (\<lparr>status = 200, body = SuccessBody ''Submission received'' ''S1''\<rparr>,
      world0\<lparr>submissions :=
               [(''S1'', \<lparr>sub_form_id = ''F1'', sub_payload = [(''name'', JStr ''Bot'')],
                         sub_ip = ''1.2.3.4'', sub_user_agent = ''Mozilla'',
                         sub_is_spam = True, sub_spam_reason = ''Honeypot field was filled''\<rparr>)],
             spam_signals :=
               [\<lparr>sig_submission_id = ''S1'', sig_signal = ''honeypot_filled'', sig_score = 100\<rparr>]\<rparr>)"
  by (simp add: handler_defs fixture_defs eval_defs)

lemma scenario_bad_body:
  "handle_request ((post_to ''F1'' [])\<lparr>req_body := None\<rparr>) env_ok world0 =
     (\<lparr>status = 500, body = ErrorBody ''Internal server error''\<rparr>,
      world0\<lparr>console := [ConsoleError ''Error processing submission:'']\<rparr>)"
  by (simp add: handler_defs fixture_defs)

lemma scenario_insert_fails:
  "handle_request (post_to ''F1'' payload_bob) (env_ok\<lparr>submissions_insert := DbError ''down''\<rparr>) world0 =
     (\<lparr>status = 500, body = ErrorBody ''Failed to save submission''\<rparr>,
      world0\<lparr>submissionCache := [''1.2.3.4'' \<mapsto> [1700000005001]],
             console := [ConsoleError ''Error inserting submission:'']\<rparr>)"
  by (simp add: handler_defs fixture_defs eval_defs)

lemma scenario_missing_id:
  "handle_request (post_to [] payload_bob) env_ok world0 =
     (\<lparr>status = 400, body = ErrorBody ''Form ID is required''\<rparr>, world0)"
  by (simp add: handler_defs fixture_defs)

subsection \<open>A signal insert that throws\<close>

lemma scenario_signal_insert_throws:
  "handle_request (post_to ''F1'' payload_bot) (env_ok\<lparr>spam_signals_insert := WriteThrows ''down''\<rparr>)
     world0 =
     (\<lparr>status = 500, body = ErrorBody ''Internal server error''\<rparr>,
      world0\<lparr>submissions :=
               [(''S1'', \<lparr>sub_form_id = ''F1'', sub_payload = [(''name'', JStr ''Bot'')],
                         sub_ip = ''1.2.3.4'', sub_user_agent = ''Mozilla'',
                         sub_is_spam = True, sub_spam_reason = ''Honeypot field was filled''\<rparr>)],
             console := [ConsoleError ''Error processing submission:'']\<rparr>)"
  by (simp add: handler_defs fixture_defs eval_defs)


subsection \<open>The claims on the handler\<close>














end
